theory Spec2Isabelle
  imports Main
begin

section \<open>JSON Web Tokens as the token manager uses them\<close>

text \<open>
  The payload that \<^verbatim>\<open>issueTokenPair\<close> hands to \<^verbatim>\<open>jwt.sign\<close>:
  \<^verbatim>\<open>{ sub, tokenId, jti, type, ...additionalClaims }\<close>, to which the signer adds
  \<^verbatim>\<open>iat\<close> and \<^verbatim>\<open>exp\<close> (absolute Unix seconds). The only additional claims any
  caller passes are \<^verbatim>\<open>contract\<close> and \<^verbatim>\<open>issuedFor\<close> (the dynamic issuer); a claim
  that is not passed is absent from the payload (\<open>None\<close>).
\<close>

record claims =
  sub :: string
  tokenId :: int
  jti :: string
  type :: string
  contract :: "string option"
  issuedFor :: "string option"
  iat :: int
  exp :: int

text \<open>
  A presented credential is a string. A string that is a well-formed token is determined
  by its payload and by the secret its signature was made with (HS256 is a function of
  both), so it is modelled as \<open>Jwt payload secret\<close>; \<open>Garbage s\<close> is every other string
  (also the \<^verbatim>\<open>undefined\<close> that \<^verbatim>\<open>authHeader.split(" ")[1]\<close> gives for a header of
  one word).
\<close>

datatype jwt = Jwt claims string | Garbage string

datatype error =
    TokenExpiredError
  | JsonWebTokenError
  | InvalidTokenType
  | RefreshTokenNotFound
  | TokenHasBeenRevoked
  | DoesNotHoldToken string int
  | InvalidWalletAddress
  | InvalidContractAddress
  | InvalidTokenID
  | OracleError string
  | InvalidExpiresIn
  | TypeError

text \<open>
  The ms package, which the signer uses to read a time span string such as
  \<^verbatim>\<open>"15m"\<close>: a number of milliseconds, or nothing for a string it cannot read. It is a
  parameter of the model. The number may have a fraction; the signer takes the floor of
  clock second plus milliseconds over 1000, which depends on the whole milliseconds only,
  and these are what the parameter gives.
\<close>

type_synonym ms_package = "string \<Rightarrow> int option"

text \<open>
  Modelled from the spec: the signer's reading of \<^verbatim>\<open>expiresIn\<close> is the jsonwebtoken
  package's and is not under src/. "All expiries are absolute Unix-epoch seconds": the
  expiry is the clock second plus the lifetime, of which the whole seconds count.
\<close>

definition timespan :: "ms_package \<Rightarrow> string \<Rightarrow> int \<Rightarrow> int option" where
  "timespan ms time timestamp =
     (case ms time of
        None \<Rightarrow> None
      | Some milliseconds \<Rightarrow> Some (timestamp + milliseconds div 1000))"

text \<open>
  Modelled from the spec: \<^verbatim>\<open>jwt.sign\<close> is the jsonwebtoken package's and is not under
  src/. A credential carries "issued-at, expiry": \<^verbatim>\<open>jwt.sign(payload, secret,
  { expiresIn })\<close> at clock second \<open>t\<close> is the payload with \<^verbatim>\<open>iat = t\<close> and the expiry
  that \<open>timespan\<close> gives, signed with the secret; it throws when the time span string
  cannot be read.
\<close>

definition jwt_sign :: "ms_package \<Rightarrow> claims \<Rightarrow> string \<Rightarrow> string \<Rightarrow> int \<Rightarrow> error + jwt" where
  "jwt_sign ms p secret expiresIn t =
     (case timespan ms expiresIn t of
        None \<Rightarrow> Inl InvalidExpiresIn
      | Some e \<Rightarrow> Inr (Jwt (p\<lparr>iat := t, exp := e\<rparr>) secret))"

text \<open>
  Modelled from the spec: \<^verbatim>\<open>jwt.verify\<close> is the jsonwebtoken package's and is not
  under src/. The spec's gate step Extracted \<open>\<rightarrow>\<close> Verified is a "signature/structure
  check" that fails as malformed or as expired, and a credential is "invalid at or after
  its expiry instant". The two failures are the package's two error classes, which the
  middleware's \<^verbatim>\<open>catch\<close> tells apart; the structure and signature are checked before
  the expiry. \<open>clock\<close> is the current Unix second.
\<close>

fun jwt_verify :: "int \<Rightarrow> jwt \<Rightarrow> string \<Rightarrow> error + claims" where
  "jwt_verify clock (Garbage s) secret = Inl JsonWebTokenError"
| "jwt_verify clock (Jwt p k) secret =
     (if k \<noteq> secret then Inl JsonWebTokenError
      else if exp p \<le> clock then Inl TokenExpiredError
      else Inr p)"

text \<open>
  Modelled from the spec: \<^verbatim>\<open>jwt.decode\<close> is the jsonwebtoken package's and is not
  under src/. It reads a credential's payload "without verifying its signature", and
  gives nothing for a string that is no credential.
\<close>

fun jwt_decode :: "jwt \<Rightarrow> claims option" where
  "jwt_decode (Jwt p k) = Some p"
| "jwt_decode (Garbage s) = None"

section \<open>The token manager\<close>

record TokenPair =
  accessToken :: jwt
  refreshToken :: jwt
  accessTokenExp :: int
  refreshTokenExp :: int
  pair_jti :: string

record RefreshTokenData =
  address :: string
  rt_tokenId :: int
  rt_jti :: string
  createdAt :: int

text \<open>
  The two module-level registries: \<^verbatim>\<open>refreshTokenStore\<close> (a Map keyed by the
  serialized refresh token) and \<^verbatim>\<open>tokenBlacklist\<close> (a Set of jti values).
\<close>

record state =
  refreshTokenStore :: "jwt \<rightharpoonup> RefreshTokenData"
  tokenBlacklist :: "string set"

definition initial_state :: state where
  "initial_state = \<lparr>refreshTokenStore = Map.empty, tokenBlacklist = {}\<rparr>"

text \<open>
  The configuration a call sees: \<^verbatim>\<open>config.jwtSecret\<close>, \<^verbatim>\<open>config.requiredTokenId\<close>,
  \<^verbatim>\<open>config.evmAuthAddress\<close>, and the two environment variables the token manager
  reads its lifetimes from (\<open>None\<close> for a variable that is not set).
\<close>

record config =
  jwtSecret :: string
  requiredTokenId :: int
  evmAuthAddress :: string
  env_ACCESS_TOKEN_EXPIRY :: "string option"
  env_REFRESH_TOKEN_EXPIRY :: "string option"

text \<open>
  \<^verbatim>\<open>process.env.ACCESS_TOKEN_EXPIRY || "15m"\<close> and
  \<^verbatim>\<open>process.env.REFRESH_TOKEN_EXPIRY || "7d"\<close>: the variable's string, or the default
  when the variable is not set or empty.
\<close>

definition or_default :: "string option \<Rightarrow> string \<Rightarrow> string" where
  "or_default v d = (case v of None \<Rightarrow> d | Some s \<Rightarrow> if s = [] then d else s)"

definition ACCESS_TOKEN_EXPIRY :: "config \<Rightarrow> string" where
  "ACCESS_TOKEN_EXPIRY cfg = or_default (env_ACCESS_TOKEN_EXPIRY cfg) ''15m''"

definition REFRESH_TOKEN_EXPIRY :: "config \<Rightarrow> string" where
  "REFRESH_TOKEN_EXPIRY cfg = or_default (env_REFRESH_TOKEN_EXPIRY cfg) ''7d''"

text \<open>
  What a call reads from outside the program: the clock (\<^verbatim>\<open>Date.now()\<close>, in
  milliseconds) and the hex string of \<^verbatim>\<open>crypto.randomBytes(16)\<close>. The body of
  \<^verbatim>\<open>issueTokenPair\<close> runs without suspension, so its clock readings (its own and
  those of the two \<^verbatim>\<open>jwt.sign\<close> calls) are one reading of the model; so are those
  of \<^verbatim>\<open>refreshAccessToken\<close>, which verifies, revokes and issues in one turn.
\<close>

record env =
  dateNow :: int
  randomBytes :: string

definition generateJti :: "env \<Rightarrow> string" where
  "generateJti e = randomBytes e"

definition now :: "env \<Rightarrow> int" where
  "now e = dateNow e div 1000"

record additionalClaims =
  ac_contract :: string
  ac_issuedFor :: string

definition sign_payload ::
  "string \<Rightarrow> int \<Rightarrow> string \<Rightarrow> string \<Rightarrow> additionalClaims option \<Rightarrow> claims" where
  "sign_payload addr tid j ty extra =
     \<lparr>sub = addr, tokenId = tid, jti = j, type = ty,
      contract = map_option ac_contract extra,
      issuedFor = map_option ac_issuedFor extra,
      iat = 0, exp = 0\<rparr>"

text \<open>
  \<^verbatim>\<open>issueTokenPair\<close>. The access credential is signed first, then the refresh
  credential, each with its time span string; a signing that throws leaves the store as
  it was. Both credentials are decoded, the refresh credential is stored, and the
  expiries returned are the ones read off the decoded payloads (reading \<^verbatim>\<open>exp\<close> off a
  payload that did not decode is JavaScript's TypeError, after the store was written).
\<close>

definition issueTokenPair ::
  "ms_package \<Rightarrow> config \<Rightarrow> env \<Rightarrow> state \<Rightarrow> string \<Rightarrow> int \<Rightarrow> string
     \<Rightarrow> additionalClaims option \<Rightarrow> (error + TokenPair) \<times> state" where
  "issueTokenPair ms cfg e st addr tid secret extra =
     (let j = generateJti e;
          t = now e
      in case jwt_sign ms (sign_payload addr tid j ''access'' extra) secret
                (ACCESS_TOKEN_EXPIRY cfg) t of
           Inl err \<Rightarrow> (Inl err, st)
         | Inr access \<Rightarrow>
             (case jwt_sign ms (sign_payload addr tid j ''refresh'' extra) secret
                     (REFRESH_TOKEN_EXPIRY cfg) t of
                Inl err \<Rightarrow> (Inl err, st)
              | Inr refresh \<Rightarrow>
                  (let st' = st\<lparr>refreshTokenStore := (refreshTokenStore st)
                               (refresh \<mapsto> \<lparr>address = addr, rt_tokenId = tid, rt_jti = j,
                                             createdAt = t\<rparr>)\<rparr>
                   in case jwt_decode access of
                        None \<Rightarrow> (Inl TypeError, st')
                      | Some accessDecoded \<Rightarrow>
                          (case jwt_decode refresh of
                             None \<Rightarrow> (Inl TypeError, st')
                           | Some refreshDecoded \<Rightarrow>
                               (Inr \<lparr>accessToken = access, refreshToken = refresh,
                                     accessTokenExp = exp accessDecoded,
                                     refreshTokenExp = exp refreshDecoded,
                                     pair_jti = j\<rparr>,
                                st')))))"

text \<open>
  \<^verbatim>\<open>revokeToken\<close>: the jti joins the blacklist, and every stored refresh token whose
  record has this jti is deleted.
\<close>

definition revokeToken :: "state \<Rightarrow> string \<Rightarrow> state" where
  "revokeToken st j =
     st\<lparr>tokenBlacklist := insert j (tokenBlacklist st),
        refreshTokenStore := (\<lambda>token.
          case refreshTokenStore st token of
            None \<Rightarrow> None
          | Some tokenData \<Rightarrow> if rt_jti tokenData = j then None else Some tokenData)\<rparr>"

definition isTokenRevoked :: "state \<Rightarrow> string \<Rightarrow> bool" where
  "isTokenRevoked st j \<longleftrightarrow> j \<in> tokenBlacklist st"

definition store_delete :: "state \<Rightarrow> jwt \<Rightarrow> state" where
  "store_delete st token = st\<lparr>refreshTokenStore := (refreshTokenStore st)(token := None)\<rparr>"

text \<open>
  \<^verbatim>\<open>refreshAccessToken\<close>, each \<^verbatim>\<open>throw\<close> a left result paired with the state the
  throw leaves behind. The new pair is issued from the stored record's address and token
  id, with no additional claims, after the old jti was revoked and the old record
  deleted; what \<^verbatim>\<open>issueTokenPair\<close> returns or throws is what the call returns or throws.
\<close>

definition refreshAccessToken ::
  "ms_package \<Rightarrow> config \<Rightarrow> env \<Rightarrow> state \<Rightarrow> jwt \<Rightarrow> string \<Rightarrow> (error + TokenPair) \<times> state" where
  "refreshAccessToken ms cfg e st token secret =
     (case jwt_verify (now e) token secret of
        Inl err \<Rightarrow> (Inl err, st)
      | Inr decoded \<Rightarrow>
          if type decoded \<noteq> ''refresh'' then (Inl InvalidTokenType, st)
          else (case refreshTokenStore st token of
                  None \<Rightarrow> (Inl RefreshTokenNotFound, st)
                | Some storedData \<Rightarrow>
                    if rt_jti storedData \<in> tokenBlacklist st
                    then (Inl TokenHasBeenRevoked, store_delete st token)
                    else (let st1 = revokeToken st (rt_jti storedData);
                              st2 = store_delete st1 token
                          in issueTokenPair ms cfg e st2 (address storedData)
                               (rt_tokenId storedData) secret None)))"

text \<open>
  \<^verbatim>\<open>cleanupExpiredTokens\<close> at clock second \<open>t\<close>: stored tokens whose decoded expiry has
  passed (or that do not decode) are deleted; the blacklist is left as it is.
\<close>

definition cleanupExpiredTokens :: "int \<Rightarrow> state \<Rightarrow> state" where
  "cleanupExpiredTokens t st =
     st\<lparr>refreshTokenStore := (\<lambda>token.
          case refreshTokenStore st token of
            None \<Rightarrow> None
          | Some d \<Rightarrow>
              (case jwt_decode token of
                 None \<Rightarrow> None
               | Some decoded \<Rightarrow> if exp decoded < t then None else Some d))\<rparr>"

section \<open>The issuers\<close>

text \<open>
  The ownership oracle, \<^verbatim>\<open>new EVMAuth(contract, provider).balanceOf(wallet, tokenId)\<close>:
  a balance, or whatever the call throws. It is an external collaborator and a parameter
  of the model.
\<close>

type_synonym ownership_oracle = "string \<Rightarrow> string \<Rightarrow> int \<Rightarrow> error + nat"

record IssuedTokens =
  out_accessToken :: jwt
  out_refreshToken :: jwt
  expiresIn :: int
  refreshExpiresIn :: int

definition issued :: "TokenPair \<Rightarrow> IssuedTokens" where
  "issued tokens =
     \<lparr>out_accessToken = accessToken tokens, out_refreshToken = refreshToken tokens,
      expiresIn = accessTokenExp tokens, refreshExpiresIn = refreshTokenExp tokens\<rparr>"

text \<open>
  \<^verbatim>\<open>issueJwt(address, ip)\<close>: the balance query is the first thing the function does
  with the address; \<^verbatim>\<open>ip\<close> only reaches the log.
\<close>

definition issueJwt ::
  "ms_package \<Rightarrow> config \<Rightarrow> ownership_oracle \<Rightarrow> env \<Rightarrow> state \<Rightarrow> string
     \<Rightarrow> (error + IssuedTokens) \<times> state" where
  "issueJwt ms cfg balanceOf e st addr =
     (case balanceOf (evmAuthAddress cfg) addr (requiredTokenId cfg) of
        Inl err \<Rightarrow> (Inl err, st)
      | Inr balance \<Rightarrow>
          if balance = 0 then (Inl (DoesNotHoldToken addr (requiredTokenId cfg)), st)
          else (case issueTokenPair ms cfg e st addr (requiredTokenId cfg) (jwtSecret cfg)
                       None of
                  (Inl err, st') \<Rightarrow> (Inl err, st')
                | (Inr tokens, st') \<Rightarrow> (Inr (issued tokens), st')))"

definition refreshJwt ::
  "ms_package \<Rightarrow> config \<Rightarrow> env \<Rightarrow> state \<Rightarrow> jwt \<Rightarrow> (error + IssuedTokens) \<times> state" where
  "refreshJwt ms cfg e st token =
     (case refreshAccessToken ms cfg e st token (jwtSecret cfg) of
        (Inl err, st') \<Rightarrow> (Inl err, st')
      | (Inr tokens, st') \<Rightarrow> (Inr (issued tokens), st'))"

text \<open>
  A JavaScript number as \<^verbatim>\<open>Number(tokenId)\<close> gives it: an integer, or a value
  \<^verbatim>\<open>Number.isInteger\<close> refuses (a fraction, an infinity, NaN).
\<close>

datatype number = Integer int | NotInteger

record DynamicAuthRequest =
  wallet :: string
  req_contract :: string
  req_tokenId :: number

text \<open>
  \<^verbatim>\<open>issueDynamicJwt(authRequest, ip)\<close>. \<^verbatim>\<open>ethers.isAddress\<close> is the ethers
  package's and a parameter here.
\<close>

definition issueDynamicJwt ::
  "ms_package \<Rightarrow> config \<Rightarrow> (string \<Rightarrow> bool) \<Rightarrow> ownership_oracle \<Rightarrow> env \<Rightarrow> state
     \<Rightarrow> DynamicAuthRequest \<Rightarrow> (error + IssuedTokens) \<times> state" where
  "issueDynamicJwt ms cfg isAddress balanceOf e st authRequest =
     (if \<not> isAddress (wallet authRequest) then (Inl InvalidWalletAddress, st)
      else if \<not> isAddress (req_contract authRequest) then (Inl InvalidContractAddress, st)
      else (case req_tokenId authRequest of
              NotInteger \<Rightarrow> (Inl InvalidTokenID, st)
            | Integer tid \<Rightarrow>
                if tid < 0 then (Inl InvalidTokenID, st)
                else (case balanceOf (req_contract authRequest) (wallet authRequest) tid of
                        Inl err \<Rightarrow> (Inl err, st)
                      | Inr balance \<Rightarrow>
                          if balance = 0
                          then (Inl (DoesNotHoldToken (wallet authRequest) tid), st)
                          else (case issueTokenPair ms cfg e st (wallet authRequest) tid
                                       (jwtSecret cfg)
                                       (Some \<lparr>ac_contract = req_contract authRequest,
                                              ac_issuedFor = ''Starbucks Premium MCP''\<rparr>) of
                                  (Inl err, st') \<Rightarrow> (Inl err, st')
                                | (Inr tokens, st') \<Rightarrow> (Inr (issued tokens), st')))))"

section \<open>The authorization gate\<close>

text \<open>
  The outcome of \<^verbatim>\<open>evmAuthMiddleware\<close>: \<^verbatim>\<open>next()\<close> with the payload attached to the
  request, or a 401 response with its \<^verbatim>\<open>error\<close> text.
\<close>

datatype gate_result = Next claims | Unauthorized string

text \<open>JavaScript truthiness of an optional string claim: present and not empty.\<close>

fun truthy :: "string option \<Rightarrow> bool" where
  "truthy None = False"
| "truthy (Some s) = (s \<noteq> [])"

text \<open>
  \<open>authHeader\<close> is the Authorization header: \<open>None\<close> when the request has none,
  otherwise the credential that is its second word. \<open>clockMs\<close> is \<^verbatim>\<open>Date.now()\<close>, of
  which the verifier takes the whole second.
\<close>

definition evmAuthMiddleware ::
  "config \<Rightarrow> state \<Rightarrow> int \<Rightarrow> jwt option \<Rightarrow> gate_result" where
  "evmAuthMiddleware cfg st clockMs authHeader =
     (case authHeader of
        None \<Rightarrow> Unauthorized ''Missing Authorization header''
      | Some token \<Rightarrow>
          (case jwt_verify (clockMs div 1000) token (jwtSecret cfg) of
             Inl err \<Rightarrow>
               if err = TokenExpiredError then Unauthorized ''Token expired''
               else if err = JsonWebTokenError then Unauthorized ''Invalid token''
               else Unauthorized ''Authentication failed''
           | Inr payload \<Rightarrow>
               if type payload \<noteq> ''access'' then Unauthorized ''Invalid token type''
               else if jti payload \<noteq> [] \<and> isTokenRevoked st (jti payload)
                 then Unauthorized ''Token has been revoked''
               else if truthy (contract payload) then Next payload
               else if tokenId payload \<noteq> requiredTokenId cfg
                 then Unauthorized ''Invalid tokenId in JWT''
               else Next payload))"

section \<open>Rate limiting and the routes\<close>

text \<open>
  The routes \<^verbatim>\<open>startServer\<close> registers that the rate limiters and the gate guard, and
  the three limiters of \<^verbatim>\<open>rateLimiter.ts\<close> with their options.
\<close>

datatype route = PostAuth | PostAuthRefresh | PostAuthDynamic | PostAuthRevoke | Mcp | OtherRoute

datatype limiter = generalLimiter | authLimiter | mcpLimiter

record limiterOptions =
  windowMs :: int
  limit_max :: nat

fun options_of :: "limiter \<Rightarrow> limiterOptions" where
  "options_of authLimiter = \<lparr>windowMs = 15 * 60 * 1000, limit_max = 5\<rparr>"
| "options_of mcpLimiter = \<lparr>windowMs = 60 * 1000, limit_max = 100\<rparr>"
| "options_of generalLimiter = \<lparr>windowMs = 15 * 60 * 1000, limit_max = 100\<rparr>"

text \<open>
  The limiters a request to a route passes, in order: \<^verbatim>\<open>app.use(generalLimiter)\<close> for
  every route, then the limiter named in the route's registration, if any
  (\<^verbatim>\<open>app.post("/auth", authLimiter, authHandler)\<close>,
  \<^verbatim>\<open>app.post("/auth/refresh", refreshHandler)\<close>,
  \<^verbatim>\<open>app.post("/auth/dynamic", authLimiter, dynamicAuthHandler)\<close>,
  \<^verbatim>\<open>app.post("/auth/revoke", evmAuthMiddleware, revokeHandler)\<close>,
  \<^verbatim>\<open>app.use("/mcp", mcpLimiter, evmAuthMiddleware)\<close>).
\<close>

fun limiters_of :: "route \<Rightarrow> limiter list" where
  "limiters_of PostAuth = [generalLimiter, authLimiter]"
| "limiters_of PostAuthRefresh = [generalLimiter]"
| "limiters_of PostAuthDynamic = [generalLimiter, authLimiter]"
| "limiters_of PostAuthRevoke = [generalLimiter]"
| "limiters_of Mcp = [generalLimiter, mcpLimiter]"
| "limiters_of OtherRoute = [generalLimiter]"

text \<open>
  Each limiter counts a request under the key its key generator gives for it
  (\<^verbatim>\<open>getKey\<close> for \<^verbatim>\<open>authLimiter\<close> and \<^verbatim>\<open>mcpLimiter\<close>, the network origin for
  \<^verbatim>\<open>generalLimiter\<close>, which names no generator). The keys of a request are a parameter
  of the model; for a request without an Authorization header \<^verbatim>\<open>getKey\<close> gives the
  network origin too.
\<close>

type_synonym keys = "limiter \<Rightarrow> string"

text \<open>
  Modelled from the spec: the counting is the express-rate-limit package's and is not
  under src/. "Both use a fixed-window counting algorithm: a counter per key resets when
  the window elapses; exceeding the configured maximum within the window yields
  RateLimited". A counter is the number of hits and the instant its window ends.
\<close>

type_synonym hits = "limiter \<times> string \<rightharpoonup> nat \<times> int"

definition increment :: "limiter \<Rightarrow> string \<Rightarrow> int \<Rightarrow> hits \<Rightarrow> bool \<times> hits" where
  "increment l k t h =
     (let fresh = (0, t + windowMs (options_of l));
          (totalHits, resetTime) =
            (case h (l, k) of
               None \<Rightarrow> fresh
             | Some (c, r) \<Rightarrow> if r \<le> t then fresh else (c, r))
      in (Suc totalHits \<le> limit_max (options_of l), h((l, k) \<mapsto> (Suc totalHits, resetTime))))"

text \<open>
  A request passes the limiters of its route in order; the first one whose maximum is
  exceeded answers 429 and the request goes no further.
\<close>

fun pass_limiters :: "limiter list \<Rightarrow> keys \<Rightarrow> int \<Rightarrow> hits \<Rightarrow> bool \<times> hits" where
  "pass_limiters [] key t h = (True, h)"
| "pass_limiters (l # ls) key t h =
     (case increment l (key l) t h of
        (False, h') \<Rightarrow> (False, h')
      | (True, h') \<Rightarrow> pass_limiters ls key t h')"

text \<open>
  The \<open>n\<close>-th of \<open>n\<close> requests to a route with the same keys at one instant: whether it
  reaches the route's handler, and the counters after it.
\<close>

fun nth_request :: "nat \<Rightarrow> route \<Rightarrow> keys \<Rightarrow> int \<Rightarrow> hits \<Rightarrow> bool \<times> hits" where
  "nth_request 0 r key t h = (True, h)"
| "nth_request (Suc n) r key t h =
     pass_limiters (limiters_of r) key t (snd (nth_request n r key t h))"

section \<open>Invariant of the refresh token store\<close>

text \<open>
  Every key of the store is a well-formed token whose payload carries the jti, the
  subject and the token id of the record stored under it.
\<close>

definition store_consistent :: "state \<Rightarrow> bool" where
  "store_consistent st =
     (\<forall>token.
        case refreshTokenStore st token of
          None \<Rightarrow> True
        | Some d \<Rightarrow>
            (case jwt_decode token of
               None \<Rightarrow> False
             | Some p \<Rightarrow> jti p = rt_jti d \<and> sub p = address d \<and> tokenId p = rt_tokenId d))"

text \<open>
  The states the program can be in: the empty registries at start, and what the exported
  operations make of a state, whatever their arguments and whatever the clock, the random
  source and the oracle give.
\<close>

inductive reachable :: "ms_package \<Rightarrow> config \<Rightarrow> state \<Rightarrow> bool"
  for ms :: ms_package and cfg :: config where
  start: "reachable ms cfg initial_state"
| static_issue:
    "reachable ms cfg st \<Longrightarrow> reachable ms cfg (snd (issueJwt ms cfg balanceOf e st addr))"
| dynamic_issue:
    "reachable ms cfg st \<Longrightarrow>
       reachable ms cfg (snd (issueDynamicJwt ms cfg isAddress balanceOf e st authRequest))"
| refresh: "reachable ms cfg st \<Longrightarrow> reachable ms cfg (snd (refreshJwt ms cfg e st token))"
| revoke: "reachable ms cfg st \<Longrightarrow> reachable ms cfg (revokeToken st j)"
| cleanup: "reachable ms cfg st \<Longrightarrow> reachable ms cfg (cleanupExpiredTokens t st)"

text \<open>
  The states that come after a given state: the state itself, and what any number of the
  exported operations make of it, whatever their arguments and whatever the clock, the
  random source and the oracle give.
\<close>

inductive later :: "ms_package \<Rightarrow> config \<Rightarrow> state \<Rightarrow> state \<Rightarrow> bool"
  for ms :: ms_package and cfg :: config and st0 :: state where
  same: "later ms cfg st0 st0"
| static_issue:
    "later ms cfg st0 st \<Longrightarrow> later ms cfg st0 (snd (issueJwt ms cfg balanceOf e st addr))"
| dynamic_issue:
    "later ms cfg st0 st \<Longrightarrow>
       later ms cfg st0 (snd (issueDynamicJwt ms cfg isAddress balanceOf e st authRequest))"
| refresh: "later ms cfg st0 st \<Longrightarrow> later ms cfg st0 (snd (refreshJwt ms cfg e st token))"
| revoke: "later ms cfg st0 st \<Longrightarrow> later ms cfg st0 (revokeToken st j)"
| cleanup: "later ms cfg st0 st \<Longrightarrow> later ms cfg st0 (cleanupExpiredTokens t st)"


section \<open>A concrete deployment\<close>

text \<open>
  The configuration of \<^verbatim>\<open>.env.example\<close> and the defaults of the configuration
  module: token id 0, and neither lifetime variable set, so that the lifetimes are the
  defaults \<^verbatim>\<open>"15m"\<close> and \<^verbatim>\<open>"7d"\<close>.
\<close>

definition default_config :: config where
  "default_config =
     \<lparr>jwtSecret = ''default-secret-change-in-production'',
      requiredTokenId = 0,
      evmAuthAddress = ''0x5448Dc20ad9e0cDb5Dd0db25e814545d1aa08D96'',
      env_ACCESS_TOKEN_EXPIRY = None,
      env_REFRESH_TOKEN_EXPIRY = None\<rparr>"




text \<open>
  A stand-in for the ms package in the examples, on the strings they use: 15 minutes,
  7 days and 900.5 seconds in milliseconds, and nothing for \<^verbatim>\<open>"soon"\<close>, which has no
  number in it.
\<close>

definition ms_stub :: ms_package where
  "ms_stub s =
     (if s = ''15m'' then Some 900000
      else if s = ''7d'' then Some 604800000
      else if s = ''900.5s'' then Some 900500
      else None)"

definition alice :: string where
  "alice = ''0x3BE5BcE56D46D04e3E1351616A0bDdBBDa240e69''"

definition other_contract :: string where
  "other_contract = ''0x1111111111111111111111111111111111111111''"

text \<open>An oracle under which every wallet holds one token, and one under which none does.\<close>

definition holds_one :: ownership_oracle where
  "holds_one c w t = Inr 1"

definition holds_none :: ownership_oracle where
  "holds_none c w t = Inr 0"

definition unreachable :: ownership_oracle where
  "unreachable c w t = Inl (OracleError ''could not resolve name'')"

definition at_time :: "int \<Rightarrow> string \<Rightarrow> env" where
  "at_time seconds j = \<lparr>dateNow = seconds * 1000, randomBytes = j\<rparr>"

text \<open>Alice's first static pair, issued at second 1000 into the empty store.\<close>

definition first_issue :: "(error + IssuedTokens) \<times> state" where
  "first_issue =
     issueJwt ms_stub default_config holds_one (at_time 1000 ''a1'') initial_state alice"

definition first_refresh_token :: jwt where
  "first_refresh_token =
     Jwt \<lparr>sub = alice, tokenId = 0, jti = ''a1'', type = ''refresh'', contract = None,
          issuedFor = None, iat = 1000, exp = 605800\<rparr> (jwtSecret default_config)"

definition first_access_token :: jwt where
  "first_access_token =
     Jwt \<lparr>sub = alice, tokenId = 0, jti = ''a1'', type = ''access'', contract = None,
          issuedFor = None, iat = 1000, exp = 1900\<rparr> (jwtSecret default_config)"

text \<open>
  A stand-in for \<^verbatim>\<open>ethers.isAddress\<close> in the examples: 0x and forty more characters.
\<close>

definition well_formed_address :: "string \<Rightarrow> bool" where
  "well_formed_address s \<longleftrightarrow> length s = 42 \<and> take 2 s = ''0x''"

text \<open>
  A dynamic pair for Alice, for token 42 of another contract, issued at second 1000 into
  the empty store; its credentials, and the payload of the access credential that a
  refresh at second 1500 gives in exchange.
\<close>

definition dynamic_request :: DynamicAuthRequest where
  "dynamic_request = \<lparr>wallet = alice, req_contract = other_contract, req_tokenId = Integer 42\<rparr>"

definition dynamic_issue :: "(error + IssuedTokens) \<times> state" where
  "dynamic_issue =
     issueDynamicJwt ms_stub default_config well_formed_address holds_one
       (at_time 1000 ''d4'') initial_state dynamic_request"

definition dynamic_access_claims :: claims where
  "dynamic_access_claims =
     \<lparr>sub = alice, tokenId = 42, jti = ''d4'', type = ''access'',
      contract = Some other_contract, issuedFor = Some ''Starbucks Premium MCP'',
      iat = 1000, exp = 1900\<rparr>"

definition dynamic_refresh_token :: jwt where
  "dynamic_refresh_token =
     Jwt \<lparr>sub = alice, tokenId = 42, jti = ''d4'', type = ''refresh'',
          contract = Some other_contract, issuedFor = Some ''Starbucks Premium MCP'',
          iat = 1000, exp = 605800\<rparr> (jwtSecret default_config)"

definition refreshed_access_claims :: claims where
  "refreshed_access_claims =
     \<lparr>sub = alice, tokenId = 42, jti = ''e5'', type = ''access'',
      contract = None, issuedFor = None, iat = 1500, exp = 2400\<rparr>"

text \<open>
  Alice's first pair is revoked, and a second issuance in the same second draws the jti
  of the first again: the store then holds a record whose jti is on the blacklist.
\<close>

definition stale_state :: state where
  "stale_state =
     snd (issueJwt ms_stub default_config holds_one (at_time 1000 ''a1'')
            (revokeToken (snd first_issue) ''a1'') alice)"




section \<open>Lemmas\<close>

subsection \<open>What issuing a pair returns\<close>

lemma issueTokenPair_cases:
  "issueTokenPair ms cfg e st addr tid secret extra =
     (case ms (ACCESS_TOKEN_EXPIRY cfg) of
        None \<Rightarrow> (Inl InvalidExpiresIn, st)
      | Some a \<Rightarrow>
          (case ms (REFRESH_TOKEN_EXPIRY cfg) of
             None \<Rightarrow> (Inl InvalidExpiresIn, st)
           | Some r \<Rightarrow>
               (Inr \<lparr>accessToken =
                       Jwt ((sign_payload addr tid (generateJti e) ''access'' extra)
                              \<lparr>iat := now e, exp := now e + a div 1000\<rparr>) secret,
                     refreshToken =
                       Jwt ((sign_payload addr tid (generateJti e) ''refresh'' extra)
                              \<lparr>iat := now e, exp := now e + r div 1000\<rparr>) secret,
                     accessTokenExp = now e + a div 1000,
                     refreshTokenExp = now e + r div 1000,
                     pair_jti = generateJti e\<rparr>,
                st\<lparr>refreshTokenStore := (refreshTokenStore st)
                      (Jwt ((sign_payload addr tid (generateJti e) ''refresh'' extra)
                              \<lparr>iat := now e, exp := now e + r div 1000\<rparr>) secret
                       \<mapsto> \<lparr>address = addr, rt_tokenId = tid, rt_jti = generateJti e,
                             createdAt = now e\<rparr>)\<rparr>)))"
  by (simp add: issueTokenPair_def jwt_sign_def timespan_def Let_def split: option.splits)

lemma snd_rethrow:
  "snd (case p of (Inl err, s) \<Rightarrow> (Inl err, s) | (Inr tokens, s) \<Rightarrow> (Inr (f tokens), s)) = snd p"
  by (cases p; cases "fst p") auto

lemma snd_issueJwt:
  "snd (issueJwt ms cfg balanceOf e st addr) =
     (case balanceOf (evmAuthAddress cfg) addr (requiredTokenId cfg) of
        Inl err \<Rightarrow> st
      | Inr balance \<Rightarrow>
          if balance = 0 then st
          else snd (issueTokenPair ms cfg e st addr (requiredTokenId cfg) (jwtSecret cfg) None))"
  by (simp add: issueJwt_def snd_rethrow split: sum.splits)

lemma snd_refreshJwt:
  "snd (refreshJwt ms cfg e st token) = snd (refreshAccessToken ms cfg e st token (jwtSecret cfg))"
  by (simp add: refreshJwt_def snd_rethrow)

lemma snd_issueDynamicJwt:
  "snd (issueDynamicJwt ms cfg isAddress balanceOf e st authRequest) = st
   \<or> (\<exists>tid. snd (issueDynamicJwt ms cfg isAddress balanceOf e st authRequest) =
         snd (issueTokenPair ms cfg e st (wallet authRequest) tid (jwtSecret cfg)
                (Some \<lparr>ac_contract = req_contract authRequest,
                       ac_issuedFor = ''Starbucks Premium MCP''\<rparr>)))"
  by (auto simp: issueDynamicJwt_def snd_rethrow split: sum.splits number.splits)

subsection \<open>The store invariant holds in every reachable state\<close>

lemma store_consistent_initial: "store_consistent initial_state"
  by (simp add: store_consistent_def initial_state_def)

lemma store_consistent_iff:
  "store_consistent st \<longleftrightarrow>
     (\<forall>token d. refreshTokenStore st token = Some d \<longrightarrow>
        (\<exists>p k. token = Jwt p k \<and> jti p = rt_jti d \<and> sub p = address d \<and> tokenId p = rt_tokenId d))"
proof -
  have "(case refreshTokenStore st token of
          None \<Rightarrow> True
        | Some d \<Rightarrow>
            (case jwt_decode token of
               None \<Rightarrow> False
             | Some p \<Rightarrow> jti p = rt_jti d \<and> sub p = address d \<and> tokenId p = rt_tokenId d))
      \<longleftrightarrow> (\<forall>d. refreshTokenStore st token = Some d \<longrightarrow>
        (\<exists>p k. token = Jwt p k \<and> jti p = rt_jti d \<and> sub p = address d \<and> tokenId p = rt_tokenId d))"
    for token
    by (cases token; cases "refreshTokenStore st token") auto
  then show ?thesis
    unfolding store_consistent_def by blast
qed

lemma store_consistent_issueTokenPair:
  "store_consistent st \<Longrightarrow>
     store_consistent (snd (issueTokenPair ms cfg e st addr tid secret extra))"
  unfolding store_consistent_iff
  by (auto simp: issueTokenPair_cases sign_payload_def split: option.splits)

lemma store_consistent_revokeToken:
  "store_consistent st \<Longrightarrow> store_consistent (revokeToken st j)"
  unfolding store_consistent_iff
  by (auto simp: revokeToken_def split: option.splits if_splits)

lemma store_consistent_store_delete:
  "store_consistent st \<Longrightarrow> store_consistent (store_delete st token)"
  unfolding store_consistent_iff
  by (auto simp: store_delete_def split: if_splits)

lemma store_consistent_cleanup:
  "store_consistent st \<Longrightarrow> store_consistent (cleanupExpiredTokens t st)"
  unfolding store_consistent_iff
  by (auto simp: cleanupExpiredTokens_def split: option.splits if_splits)

lemma store_consistent_refreshAccessToken:
  "store_consistent st \<Longrightarrow>
     store_consistent (snd (refreshAccessToken ms cfg e st token secret))"
  by (auto simp: refreshAccessToken_def Let_def
      intro!: store_consistent_issueTokenPair store_consistent_store_delete
        store_consistent_revokeToken
      split: sum.splits option.splits)

lemma store_consistent_issueJwt:
  "store_consistent st \<Longrightarrow> store_consistent (snd (issueJwt ms cfg balanceOf e st addr))"
  by (auto simp: snd_issueJwt intro!: store_consistent_issueTokenPair split: sum.splits)

lemma store_consistent_issueDynamicJwt:
  "store_consistent st \<Longrightarrow>
     store_consistent (snd (issueDynamicJwt ms cfg isAddress balanceOf e st authRequest))"
  using snd_issueDynamicJwt [of ms cfg isAddress balanceOf e st authRequest]
  by (auto intro: store_consistent_issueTokenPair)

lemma store_consistent_refreshJwt:
  "store_consistent st \<Longrightarrow> store_consistent (snd (refreshJwt ms cfg e st token))"
  by (simp add: snd_refreshJwt store_consistent_refreshAccessToken)

lemma reachable_store_consistent: "reachable ms cfg st \<Longrightarrow> store_consistent st"
  by (induction rule: reachable.induct)
     (simp_all add: store_consistent_initial store_consistent_issueJwt
        store_consistent_issueDynamicJwt store_consistent_refreshJwt
        store_consistent_revokeToken store_consistent_cleanup)


lemma later_reachable:
  "later ms cfg st st' \<Longrightarrow> reachable ms cfg st \<Longrightarrow> reachable ms cfg st'"
  by (induction rule: later.induct) (auto intro: reachable.intros)

subsection \<open>No operation takes a jti off the blacklist\<close>






subsection \<open>When a refresh succeeds\<close>

lemma refreshAccessToken_success:
  "refreshAccessToken ms cfg e st token secret = (Inr newTokens, st') \<longleftrightarrow>
     (\<exists>decoded d. token = Jwt decoded secret \<and> now e < exp decoded \<and> type decoded = ''refresh''
        \<and> refreshTokenStore st token = Some d \<and> rt_jti d \<notin> tokenBlacklist st
        \<and> issueTokenPair ms cfg e (store_delete (revokeToken st (rt_jti d)) token)
              (address d) (rt_tokenId d) secret None = (Inr newTokens, st'))"
  by (cases token)
     (auto simp: refreshAccessToken_def Let_def split: option.splits if_splits)

text \<open>
  A refreshed pair keeps the subject and the token id of the credential it replaces, and
  never has a contract claim.
\<close>

lemma refresh_keeps_subject_and_token_id:
  assumes reach: "reachable ms cfg st"
    and ok: "refreshAccessToken ms cfg e st token secret = (Inr newTokens, st')"
  shows "\<exists>decoded newAccess newRefresh.
           token = Jwt decoded secret
         \<and> accessToken newTokens = Jwt newAccess secret
         \<and> refreshToken newTokens = Jwt newRefresh secret
         \<and> sub newAccess = sub decoded \<and> sub newRefresh = sub decoded
         \<and> tokenId newAccess = tokenId decoded \<and> tokenId newRefresh = tokenId decoded
         \<and> contract newAccess = None \<and> contract newRefresh = None"
proof -
  from reach have inv: "store_consistent st" by (rule reachable_store_consistent)
  from ok obtain decoded d where
    tok: "token = Jwt decoded secret"
    and stored: "refreshTokenStore st token = Some d"
    and issue: "issueTokenPair ms cfg e (store_delete (revokeToken st (rt_jti d)) token)
                  (address d) (rt_tokenId d) secret None = (Inr newTokens, st')"
    unfolding refreshAccessToken_success by blast
  from inv stored tok have "sub decoded = address d" "tokenId decoded = rt_tokenId d"
    unfolding store_consistent_iff by fastforce+
  with issue tok show ?thesis
    by (auto simp: issueTokenPair_cases sign_payload_def split: option.splits)
qed

subsection \<open>Every returned pair comes from \<^verbatim>\<open>issueTokenPair\<close>\<close>





subsection \<open>The clock in whole seconds\<close>

lemma whole_second_le: "(x::int) \<le> c div 1000 \<longleftrightarrow> x * 1000 \<le> c"
proof
  assume "x \<le> c div 1000"
  then have "x * 1000 \<le> (c div 1000) * 1000" by simp
  also have "\<dots> = c - c mod 1000" by (simp add: minus_mod_eq_div_mult)
  also have "\<dots> \<le> c" by simp
  finally show "x * 1000 \<le> c" .
next
  assume "x * 1000 \<le> c"
  then have "(x * 1000) div 1000 \<le> c div 1000" by (rule zdiv_mono1) simp
  then show "x \<le> c div 1000" by simp
qed

subsection \<open>The example runs\<close>

lemma now_at_time: "now (at_time seconds j) = seconds"
  by (simp add: now_def at_time_def)

lemma generateJti_at_time: "generateJti (at_time seconds j) = j"
  by (simp add: generateJti_def at_time_def)

lemma required_default: "requiredTokenId default_config = 0"
  by (simp add: default_config_def)

lemma default_lifetimes:
  "ms_stub (ACCESS_TOKEN_EXPIRY default_config) = Some 900000"
  "ms_stub (REFRESH_TOKEN_EXPIRY default_config) = Some 604800000"
  by (simp_all add: ACCESS_TOKEN_EXPIRY_def REFRESH_TOKEN_EXPIRY_def or_default_def
      default_config_def ms_stub_def)



lemma first_issue_state:
  "snd first_issue =
     \<lparr>refreshTokenStore = [first_refresh_token \<mapsto>
        \<lparr>address = alice, rt_tokenId = 0, rt_jti = ''a1'', createdAt = 1000\<rparr>],
      tokenBlacklist = {}\<rparr>"
  by (simp add: first_issue_def issueJwt_def holds_one_def issueTokenPair_cases default_lifetimes
      now_at_time generateJti_at_time sign_payload_def initial_state_def
      first_refresh_token_def required_default)




lemma dynamic_issue_tokens:
  "fst dynamic_issue = Inr \<lparr>out_accessToken = Jwt dynamic_access_claims (jwtSecret default_config),
     out_refreshToken = dynamic_refresh_token, expiresIn = 1900, refreshExpiresIn = 605800\<rparr>"
  by (simp add: dynamic_issue_def issueDynamicJwt_def dynamic_request_def well_formed_address_def
      alice_def other_contract_def holds_one_def issueTokenPair_cases default_lifetimes
      now_at_time generateJti_at_time sign_payload_def issued_def
      dynamic_access_claims_def dynamic_refresh_token_def)

lemma dynamic_issue_state:
  "snd dynamic_issue =
     \<lparr>refreshTokenStore = [dynamic_refresh_token \<mapsto>
        \<lparr>address = alice, rt_tokenId = 42, rt_jti = ''d4'', createdAt = 1000\<rparr>],
      tokenBlacklist = {}\<rparr>"
  by (simp add: dynamic_issue_def issueDynamicJwt_def dynamic_request_def well_formed_address_def
      alice_def other_contract_def holds_one_def issueTokenPair_cases default_lifetimes
      now_at_time generateJti_at_time sign_payload_def initial_state_def
      dynamic_refresh_token_def)

lemma stale_state_eq:
  "stale_state =
     \<lparr>refreshTokenStore = [first_refresh_token \<mapsto>
        \<lparr>address = alice, rt_tokenId = 0, rt_jti = ''a1'', createdAt = 1000\<rparr>],
      tokenBlacklist = {''a1''}\<rparr>"
  by (simp add: stale_state_def first_issue_state issueJwt_def holds_one_def issueTokenPair_cases
      default_lifetimes now_at_time generateJti_at_time sign_payload_def revokeToken_def
      first_refresh_token_def required_default fun_eq_iff)

text \<open>
  The jti of a refreshed pair is what the random source gives, compared with nothing:
  when it gives \<open>a1\<close> again at the refresh of Alice's first credential, the new pair
  carries the old jti.
\<close>

lemma refresh_with_repeated_random_bytes:
  "\<exists>newTokens. fst (refreshAccessToken ms_stub default_config (at_time 2000 ''a1'')
          (snd first_issue) first_refresh_token (jwtSecret default_config)) = Inr newTokens
        \<and> pair_jti newTokens = ''a1''"
  by (simp add: first_issue_state refreshAccessToken_def first_refresh_token_def now_at_time
      generateJti_at_time issueTokenPair_cases default_lifetimes Let_def)

section \<open>The claims\<close>




text \<open>
  C2, at the input where the code departs from it. A dynamic pair is issued for token 42
  of another contract; its access credential carries the contract claim and passes the
  gate. The pair that \<^verbatim>\<open>refreshJwt\<close> gives in exchange has the same subject and token
  id but no contract claim, and the gate refuses its access credential with "Invalid
  tokenId in JWT", the process-wide token id being 0.
\<close>

theorem refresh_drops_contract_claim:
  "fst dynamic_issue = Inr \<lparr>out_accessToken = Jwt dynamic_access_claims (jwtSecret default_config),
     out_refreshToken = dynamic_refresh_token, expiresIn = 1900, refreshExpiresIn = 605800\<rparr>
   \<and> contract dynamic_access_claims = Some other_contract
   \<and> evmAuthMiddleware default_config (snd dynamic_issue) 1500000
        (Some (Jwt dynamic_access_claims (jwtSecret default_config))) = Next dynamic_access_claims
   \<and> map_sum id out_accessToken
        (fst (refreshJwt ms_stub default_config (at_time 1500 ''e5'') (snd dynamic_issue)
                dynamic_refresh_token))
        = Inr (Jwt refreshed_access_claims (jwtSecret default_config))
   \<and> contract refreshed_access_claims = None
   \<and> evmAuthMiddleware default_config
        (snd (refreshJwt ms_stub default_config (at_time 1500 ''e5'') (snd dynamic_issue)
                dynamic_refresh_token))
        1500000 (Some (Jwt refreshed_access_claims (jwtSecret default_config)))
        = Unauthorized ''Invalid tokenId in JWT''"
proof -
  let ?secret = "jwtSecret default_config"
  let ?r = "refreshJwt ms_stub default_config (at_time 1500 ''e5'') (snd dynamic_issue)
              dynamic_refresh_token"
  have gate1: "evmAuthMiddleware default_config (snd dynamic_issue) 1500000
        (Some (Jwt dynamic_access_claims ?secret)) = Next dynamic_access_claims"
    by (simp add: evmAuthMiddleware_def dynamic_access_claims_def dynamic_issue_state
        isTokenRevoked_def other_contract_def)
  have tokens: "map_sum id out_accessToken (fst ?r) = Inr (Jwt refreshed_access_claims ?secret)"
    by (simp add: refreshJwt_def refreshAccessToken_def dynamic_issue_state
        dynamic_refresh_token_def now_at_time generateJti_at_time issueTokenPair_cases
        default_lifetimes Let_def sign_payload_def issued_def refreshed_access_claims_def)
  have black: "tokenBlacklist (snd ?r) = {''d4''}"
    by (simp add: refreshJwt_def refreshAccessToken_def dynamic_issue_state
        dynamic_refresh_token_def now_at_time issueTokenPair_cases default_lifetimes Let_def
        revokeToken_def store_delete_def)
  have gate2: "evmAuthMiddleware default_config (snd ?r) 1500000
        (Some (Jwt refreshed_access_claims ?secret)) = Unauthorized ''Invalid tokenId in JWT''"
    by (simp add: evmAuthMiddleware_def refreshed_access_claims_def isTokenRevoked_def black
        required_default)
  show ?thesis
    using dynamic_issue_tokens gate1 tokens gate2
    by (simp add: dynamic_access_claims_def refreshed_access_claims_def)
qed

text \<open>
  C3. The gate admits no credential whose payload has a type other than \<open>access\<close>,
  whatever its signature, its expiry, the blacklist and its other claims; when such a
  credential verifies, the refusal is "Invalid token type".
\<close>

theorem gate_rejects_non_access:
  assumes "jwt_decode token = Some payload"
    and "type payload \<noteq> ''access''"
  shows "(\<exists>reason. evmAuthMiddleware cfg st clockMs (Some token) = Unauthorized reason)
       \<and> (jwt_verify (clockMs div 1000) token (jwtSecret cfg) = Inr payload \<longrightarrow>
            evmAuthMiddleware cfg st clockMs (Some token) = Unauthorized ''Invalid token type'')"
  using assms by (cases token) (auto simp: evmAuthMiddleware_def)

theorem gate_rejects_non_access_witness:
  "jwt_decode first_refresh_token \<noteq> None
   \<and> evmAuthMiddleware default_config (snd first_issue) 1500000 (Some first_refresh_token)
       = Unauthorized ''Invalid token type''"
proof -
  let ?p = "\<lparr>sub = alice, tokenId = 0, jti = ''a1'', type = ''refresh'', contract = None,
          issuedFor = None, iat = 1000, exp = 605800\<rparr>"
  have dec: "jwt_decode first_refresh_token = Some ?p"
    by (simp add: first_refresh_token_def)
  have ty: "type ?p \<noteq> ''access''" by simp
  have ver: "jwt_verify (1500000 div 1000) first_refresh_token (jwtSecret default_config) = Inr ?p"
    by (simp add: first_refresh_token_def)
  from gate_rejects_non_access [OF dec ty, of default_config "snd first_issue" 1500000] ver dec
  show ?thesis by simp
qed

text \<open>
  C4. For a verified access credential whose jti is not on the blacklist: with a contract
  claim (present and not empty, as the middleware's test reads it) the gate admits it and
  does not look at the token id; without one it admits it exactly when the token id is
  the process-wide required one, and otherwise answers "Invalid tokenId in JWT".
\<close>

theorem gate_requirement_asymmetry:
  assumes "jwt_verify (clockMs div 1000) token (jwtSecret cfg) = Inr payload"
    and "type payload = ''access''"
    and "\<not> isTokenRevoked st (jti payload)"
  shows "(truthy (contract payload) \<longrightarrow>
            evmAuthMiddleware cfg st clockMs (Some token) = Next payload)
       \<and> (\<not> truthy (contract payload) \<longrightarrow>
            evmAuthMiddleware cfg st clockMs (Some token) =
              (if tokenId payload = requiredTokenId cfg then Next payload
               else Unauthorized ''Invalid tokenId in JWT''))"
  using assms by (simp add: evmAuthMiddleware_def)

theorem gate_requirement_asymmetry_witness:
  "evmAuthMiddleware default_config (snd dynamic_issue) 1500000
     (Some (Jwt dynamic_access_claims (jwtSecret default_config))) = Next dynamic_access_claims
   \<and> evmAuthMiddleware (default_config\<lparr>requiredTokenId := 7\<rparr>) (snd first_issue) 1500000
     (Some first_access_token) = Unauthorized ''Invalid tokenId in JWT''"
proof -
  let ?secret = "jwtSecret default_config"
  let ?p = "\<lparr>sub = alice, tokenId = 0, jti = ''a1'', type = ''access'', contract = None,
          issuedFor = None, iat = 1000, exp = 1900\<rparr>"
  let ?cfg7 = "default_config\<lparr>requiredTokenId := 7\<rparr>"
  have v1: "jwt_verify (1500000 div 1000) (Jwt dynamic_access_claims ?secret)
              (jwtSecret default_config) = Inr dynamic_access_claims"
    by (simp add: dynamic_access_claims_def)
  have t1: "type dynamic_access_claims = ''access''"
    by (simp add: dynamic_access_claims_def)
  have r1: "\<not> isTokenRevoked (snd dynamic_issue) (jti dynamic_access_claims)"
    by (simp add: isTokenRevoked_def dynamic_issue_state)
  have c1: "truthy (contract dynamic_access_claims)"
    by (simp add: dynamic_access_claims_def other_contract_def)
  have v2: "jwt_verify (1500000 div 1000) first_access_token (jwtSecret ?cfg7) = Inr ?p"
    by (simp add: first_access_token_def)
  have t2: "type ?p = ''access''" by simp
  have r2: "\<not> isTokenRevoked (snd first_issue) (jti ?p)"
    by (simp add: isTokenRevoked_def first_issue_state)
  have c2: "\<not> truthy (contract ?p)" "tokenId ?p \<noteq> requiredTokenId ?cfg7"
    by simp_all
  from gate_requirement_asymmetry [OF v1 t1 r1] gate_requirement_asymmetry [OF v2 t2 r2] c1 c2
  show ?thesis by simp
qed




text \<open>
  C6. When the oracle reports a balance of zero, \<^verbatim>\<open>issueJwt\<close> fails with the "does
  not hold token" error, which is not an oracle failure, and the store and the blacklist
  are what they were.
\<close>

theorem issueJwt_zero_balance:
  assumes "balanceOf (evmAuthAddress cfg) addr (requiredTokenId cfg) = Inr 0"
  shows "issueJwt ms cfg balanceOf e st addr
           = (Inl (DoesNotHoldToken addr (requiredTokenId cfg)), st)"
  using assms by (simp add: issueJwt_def)

theorem issueJwt_zero_balance_witness:
  "issueJwt ms_stub default_config holds_none (at_time 1000 ''a1'') initial_state alice
     = (Inl (DoesNotHoldToken alice 0), initial_state)"
proof -
  have zero: "holds_none (evmAuthAddress default_config) alice (requiredTokenId default_config)
                = Inr 0"
    by (simp add: holds_none_def)
  have "requiredTokenId default_config = 0" by (simp add: default_config_def)
  with issueJwt_zero_balance [of holds_none default_config alice ms_stub, OF zero] show ?thesis by simp
qed

text \<open>
  C7. An access credential signed with the configured secret, not revoked and meeting
  the requirement check is admitted at every instant (in milliseconds) strictly before
  its expiry second, and refused with "Token expired" at the expiry instant and after.
\<close>

theorem gate_expiry_boundary:
  assumes "type payload = ''access''"
    and "\<not> isTokenRevoked st (jti payload)"
    and "truthy (contract payload) \<or> tokenId payload = requiredTokenId cfg"
  shows "(clockMs < exp payload * 1000 \<longrightarrow>
            evmAuthMiddleware cfg st clockMs (Some (Jwt payload (jwtSecret cfg))) = Next payload)
       \<and> (exp payload * 1000 \<le> clockMs \<longrightarrow>
            evmAuthMiddleware cfg st clockMs (Some (Jwt payload (jwtSecret cfg)))
              = Unauthorized ''Token expired'')"
  using assms by (auto simp: evmAuthMiddleware_def whole_second_le)

theorem gate_expiry_boundary_witness:
  "evmAuthMiddleware default_config (snd first_issue) 1899999 (Some first_access_token)
     = Next \<lparr>sub = alice, tokenId = 0, jti = ''a1'', type = ''access'', contract = None,
          issuedFor = None, iat = 1000, exp = 1900\<rparr>
   \<and> evmAuthMiddleware default_config (snd first_issue) 1900000 (Some first_access_token)
     = Unauthorized ''Token expired''"
proof -
  let ?p = "\<lparr>sub = alice, tokenId = 0, jti = ''a1'', type = ''access'', contract = None,
          issuedFor = None, iat = 1000, exp = 1900\<rparr>"
  have ty: "type ?p = ''access''" by simp
  have live: "\<not> isTokenRevoked (snd first_issue) (jti ?p)"
    by (simp add: isTokenRevoked_def first_issue_state)
  have req: "truthy (contract ?p) \<or> tokenId ?p = requiredTokenId default_config"
    by (simp add: default_config_def)
  have tok: "first_access_token = Jwt ?p (jwtSecret default_config)"
    by (simp add: first_access_token_def)
  from gate_expiry_boundary [OF ty live req, of 1899999]
    gate_expiry_boundary [OF ty live req, of 1900000]
  show ?thesis unfolding tok by simp
qed

text \<open>
  C8, at the input where the code departs from it. For an identity that is no address,
  \<^verbatim>\<open>issueDynamicJwt\<close> fails with "Invalid wallet address" before any query, but
  \<^verbatim>\<open>issueJwt\<close> passes the identity to the oracle: it fails with whatever the oracle
  throws, and issues a pair for the identity when the oracle reports a balance.
\<close>

theorem issueJwt_skips_address_check:
  "\<not> well_formed_address ''not-an-address''
   \<and> fst (issueDynamicJwt ms_stub default_config well_formed_address holds_one
          (at_time 1000 ''a1'') initial_state
          \<lparr>wallet = ''not-an-address'', req_contract = other_contract, req_tokenId = Integer 0\<rparr>)
       = Inl InvalidWalletAddress
   \<and> fst (issueJwt ms_stub default_config unreachable (at_time 1000 ''a1'') initial_state
          ''not-an-address'')
       = Inl (OracleError ''could not resolve name'')
   \<and> (\<exists>out. fst (issueJwt ms_stub default_config holds_one (at_time 1000 ''a1'') initial_state
                  ''not-an-address'') = Inr out
          \<and> jwt_decode (out_accessToken out) =
              Some \<lparr>sub = ''not-an-address'', tokenId = 0, jti = ''a1'', type = ''access'',
                    contract = None, issuedFor = None, iat = 1000, exp = 1900\<rparr>)"
  by (simp add: well_formed_address_def issueDynamicJwt_def issueJwt_def unreachable_def
      holds_one_def issueTokenPair_cases default_lifetimes now_at_time generateJti_at_time
      issued_def sign_payload_def required_default)

text \<open>
  C9, at the input where the code departs from it. The routes \<^verbatim>\<open>/auth\<close> and
  \<^verbatim>\<open>/auth/dynamic\<close> pass \<^verbatim>\<open>authLimiter\<close>, the route \<^verbatim>\<open>/auth/refresh\<close> does not:
  of six requests at one instant that every limiter counts under one key (the network
  origin, for requests without an Authorization header), the sixth to \<^verbatim>\<open>/auth\<close> is
  stopped and the sixth to \<^verbatim>\<open>/auth/refresh\<close> reaches its handler.
\<close>

theorem refresh_route_not_auth_limited:
  "authLimiter \<in> set (limiters_of PostAuth)
   \<and> authLimiter \<in> set (limiters_of PostAuthDynamic)
   \<and> authLimiter \<notin> set (limiters_of PostAuthRefresh)
   \<and> fst (nth_request 5 PostAuth (\<lambda>l. ''203.0.113.7'') 0 Map.empty) = True
   \<and> fst (nth_request 6 PostAuth (\<lambda>l. ''203.0.113.7'') 0 Map.empty) = False
   \<and> fst (nth_request 6 PostAuthRefresh (\<lambda>l. ''203.0.113.7'') 0 Map.empty) = True"
  by (simp add: numeral_eq_Suc increment_def Let_def)

text \<open>
  C10. When \<^verbatim>\<open>refreshAccessToken\<close> finds the stored record's jti on the blacklist it
  throws "Token has been revoked" after deleting the record of the presented token, and
  changes nothing else; a repeated call with the same token, while the token still
  verifies, throws "Refresh token not found" and leaves the state as it is.
\<close>

theorem refresh_revoked_deletes_record:
  assumes "jwt_verify (now e) token secret = Inr decoded"
    and "type decoded = ''refresh''"
    and "refreshTokenStore st token = Some storedData"
    and "rt_jti storedData \<in> tokenBlacklist st"
    and "jwt_verify (now e') token secret = Inr decoded"
  shows "refreshAccessToken ms cfg e st token secret
           = (Inl TokenHasBeenRevoked, store_delete st token)
       \<and> refreshTokenStore (store_delete st token) token = None
       \<and> tokenBlacklist (store_delete st token) = tokenBlacklist st
       \<and> refreshAccessToken ms cfg e' (store_delete st token) token secret
           = (Inl RefreshTokenNotFound, store_delete st token)"
  using assms by (simp add: refreshAccessToken_def store_delete_def)

theorem refresh_revoked_deletes_record_witness:
  "refreshAccessToken ms_stub default_config (at_time 2000 ''b2'') stale_state first_refresh_token
       (jwtSecret default_config)
     = (Inl TokenHasBeenRevoked, store_delete stale_state first_refresh_token)
   \<and> refreshTokenStore (store_delete stale_state first_refresh_token) first_refresh_token = None
   \<and> refreshAccessToken ms_stub default_config (at_time 2001 ''c3'')
       (store_delete stale_state first_refresh_token) first_refresh_token
       (jwtSecret default_config)
     = (Inl RefreshTokenNotFound, store_delete stale_state first_refresh_token)"
proof -
  let ?secret = "jwtSecret default_config"
  let ?p = "\<lparr>sub = alice, tokenId = 0, jti = ''a1'', type = ''refresh'', contract = None,
          issuedFor = None, iat = 1000, exp = 605800\<rparr>"
  let ?d = "\<lparr>address = alice, rt_tokenId = 0, rt_jti = ''a1'', createdAt = 1000\<rparr>"
  have v: "jwt_verify (now (at_time 2000 ''b2'')) first_refresh_token ?secret = Inr ?p"
    by (simp add: now_at_time first_refresh_token_def)
  have v': "jwt_verify (now (at_time 2001 ''c3'')) first_refresh_token ?secret = Inr ?p"
    by (simp add: now_at_time first_refresh_token_def)
  have ty: "type ?p = ''refresh''" by simp
  have stored: "refreshTokenStore stale_state first_refresh_token = Some ?d"
    by (simp add: stale_state_eq)
  have black: "rt_jti ?d \<in> tokenBlacklist stale_state"
    by (simp add: stale_state_eq)
  from refresh_revoked_deletes_record [OF v ty stored black v'] show ?thesis
    by simp
qed

end
